theory Spec2Isabelle
  imports Main
begin

section \<open>Lua values seen by the subprocess bindings\<close>

text \<open>
  The repository holds two generations of the Lua binding of the subprocess engine:
  \<^item> \<^verbatim>\<open>src/unnamed/part_000\<close>, namespace \<^verbatim>\<open>bee::lua_subprocess\<close> (functions named
    as in the source: \<open>spawn\<close>, \<open>peek\<close>, \<open>kill\<close>, \<open>wait\<close>, \<open>cast_stdio\<close>, ...);
  \<^item> \<^verbatim>\<open>src/binding/binding_subprocess.cpp\<close> (the same names, here prefixed
    \<open>binding_\<close>).
  The engine itself (\<^verbatim>\<open>bee/subprocess\<close>) is declared in \<^verbatim>\<open>src/unnamed/part_001\<close>
  but its bodies are not among the sources: every engine call is a field of the record
  \<open>core\<close> below, acting on a world \<open>'w\<close> that stands for the operating system
  (process table, descriptors, errno).
\<close>

type_synonym FILE = nat
  \<comment> \<open>the identity of a C \<^verbatim>\<open>FILE*\<close> (never NULL)\<close>

type_synonym file_handle = "nat option"
  \<comment> \<open>\<^verbatim>\<open>bee::file_handle\<close>; \<open>None\<close> is the empty handle \<^verbatim>\<open>file_handle{}\<close>, the one
      whose conversion to \<^verbatim>\<open>bool\<close> is false\<close>

record luaL_Stream =
  stream_f :: FILE
  closef :: bool
  \<comment> \<open>\<^verbatim>\<open>closef != NULL\<close>: Lua clears it when the file is closed\<close>

text \<open>
  Modelled from the spec: the process class that part_000 uses (its \<^verbatim>\<open>wait()\<close> returns an
  optional, lines 59--60) is not declared among the sources; part_001 declares the class
  of the older engine (\<^verbatim>\<open>uint32_t wait()\<close>, \<^verbatim>\<open>int pid\<close>, \<^verbatim>\<open>int status = 0\<close>). The handle
  is the spec's Process Handle: \<^emph>\<open>id: OS-assigned unique process identifier\<close> and
  \<^emph>\<open>\<open>exit_status\<close>: present only after the process has been observed to terminate;
  immutable once set\<close>.
\<close>

record process =
  pid :: int
  exit_status :: "int option"

datatype lua_value =
    LNil
  | LBoolean bool
  | LNumber int
  | LString string
  | LTable "lua_value list" "(string \<times> lua_value) list"
    \<comment> \<open>the array part \<open>t[1..#t]\<close> and the string-keyed fields, in traversal order\<close>
  | LFile luaL_Stream
    \<comment> \<open>a userdata whose metatable is \<^verbatim>\<open>bee::file\<close> or \<^verbatim>\<open>LUA_FILEHANDLE\<close>\<close>
  | LPath string
    \<comment> \<open>a userdata holding an \<^verbatim>\<open>fs::path\<close>\<close>
  | LProcess process "(string \<times> lua_value) list"
    \<comment> \<open>a process userdata and the fields stored in its user value\<close>
  | LUserdata nat
    \<comment> \<open>any other userdata\<close>
  | LFunction nat

datatype lua_error =
    Bad_argument string
    \<comment> \<open>\<^verbatim>\<open>luaL_checktype\<close>, \<^verbatim>\<open>luaL_checkudata\<close>, \<^verbatim>\<open>luaL_argexpected\<close>: the type expected\<close>
  | Unsupported_type string
    \<comment> \<open>\<^verbatim>\<open>luaL_error(L, "Unsupported type: %s.", ...)\<close>\<close>
  | Invalid_key_to_next
    \<comment> \<open>\<^verbatim>\<open>lua_next\<close> called with a key that the table does not hold\<close>
  | Api_misuse
    \<comment> \<open>a Lua API call on an index that holds no table (undefined behaviour in C)\<close>

fun lua_typename :: "lua_value \<Rightarrow> string" where
  "lua_typename LNil = ''nil''"
| "lua_typename (LBoolean b) = ''boolean''"
| "lua_typename (LNumber n) = ''number''"
| "lua_typename (LString s) = ''string''"
| "lua_typename (LTable arr flds) = ''table''"
| "lua_typename (LFunction n) = ''function''"
| "lua_typename v = ''userdata''"

fun lua_getfield :: "lua_value \<Rightarrow> string \<Rightarrow> lua_value" where
  "lua_getfield (LTable arr flds) name = (case map_of flds name of None \<Rightarrow> LNil | Some v \<Rightarrow> v)"
| "lua_getfield v name = LNil"

section \<open>The engine, as the bindings call it\<close>

datatype stdio = eInput | eOutput | eError

datatype env_call = Env_set string string | Env_del string

datatype spawn_call =
    Env "env_call list"
    \<comment> \<open>\<^verbatim>\<open>self.env(builder.release())\<close>, with the calls made on the builder\<close>
  | Env_set_old string string
    \<comment> \<open>\<^verbatim>\<open>self.env_set(key, value)\<close>\<close>
  | Env_del_old string
    \<comment> \<open>\<^verbatim>\<open>self.env_del(key)\<close>\<close>
  | Suspended
  | Detached
  | Redirect stdio file_handle
    \<comment> \<open>\<^verbatim>\<open>self.redirect(type, f)\<close> with a \<^verbatim>\<open>file_handle\<close>\<close>
  | Redirect_FILE stdio FILE
    \<comment> \<open>\<^verbatim>\<open>spawn.redirect(type, f)\<close> with a \<^verbatim>\<open>FILE*\<close>\<close>

type_synonym spawn_builder = "spawn_call list"
  \<comment> \<open>a \<^verbatim>\<open>subprocess::spawn\<close> object: the configuration calls made on it, oldest first\<close>

record pipe_result =
  rd :: file_handle
  wr :: file_handle

text \<open>
  The engine calls that the bindings make. Each takes the world and returns it, changed
  or not; a \<^verbatim>\<open>FILE*\<close> result of \<open>None\<close> is \<^verbatim>\<open>NULL\<close>.
  \<^item> \<open>pipe_open\<close>: \<^verbatim>\<open>subprocess::pipe::open()\<close> of part_000, giving the two handles;
    \<open>pipe_open_write\<close> and \<open>pipe_open_read\<close>: \<^verbatim>\<open>pipe.open_write()\<close>, \<^verbatim>\<open>pipe.open_read()\<close>.
  \<^item> \<open>pipe_open_FILE\<close>: \<^verbatim>\<open>bee::subprocess::pipe::open()\<close> of binding_subprocess.cpp,
    giving two \<^verbatim>\<open>FILE*\<close>.
  \<^item> \<open>file_dup\<close>: \<^verbatim>\<open>file_handle::dup(FILE*)\<close>; \<open>pipe_peek\<close>: \<^verbatim>\<open>pipe::peek(FILE*)\<close>.
  \<^item> \<open>spawn_exec\<close>: \<^verbatim>\<open>spawn.exec(args, cwd)\<close> on a builder, followed on success by
    the construction \<^verbatim>\<open>process(spawn)\<close>; \<open>None\<close> is the result \<^verbatim>\<open>false\<close>.
  \<^item> \<open>process_detach_core\<close>, \<open>process_kill\<close>, \<open>process_get_id\<close>, \<open>process_destroy\<close>:
    \<^verbatim>\<open>detach()\<close>, \<^verbatim>\<open>kill(signum)\<close>, \<^verbatim>\<open>get_id()\<close> and the destructor of a process.
  \<^item> \<open>os_wait\<close>: the blocking wait of the operating system for a child, by its
    identifier; \<open>None\<close> is its failure.
  \<^item> \<open>make_syserror\<close>: \<^verbatim>\<open>make_syserror(what)\<close>, the message of the last system error;
    \<open>make_error_broken_pipe\<close>: \<^verbatim>\<open>make_error(errc::broken_pipe, what)\<close>.
\<close>

record 'w core =
  pipe_open :: "'w \<Rightarrow> pipe_result \<times> 'w"
  pipe_open_write :: "pipe_result \<Rightarrow> 'w \<Rightarrow> FILE option \<times> 'w"
  pipe_open_read :: "pipe_result \<Rightarrow> 'w \<Rightarrow> FILE option \<times> 'w"
  pipe_open_FILE :: "'w \<Rightarrow> (FILE option \<times> FILE option) \<times> 'w"
  file_dup :: "FILE \<Rightarrow> 'w \<Rightarrow> file_handle \<times> 'w"
  pipe_peek :: "FILE \<Rightarrow> 'w \<Rightarrow> int \<times> 'w"
  spawn_exec :: "spawn_builder \<Rightarrow> string list \<Rightarrow> string option \<Rightarrow> 'w \<Rightarrow> process option \<times> 'w"
  process_detach_core :: "process \<Rightarrow> 'w \<Rightarrow> bool \<times> process \<times> 'w"
  process_destroy :: "process \<Rightarrow> 'w \<Rightarrow> 'w"
  process_kill :: "process \<Rightarrow> int \<Rightarrow> 'w \<Rightarrow> bool \<times> 'w"
  process_get_id :: "process \<Rightarrow> int"
  os_wait :: "int \<Rightarrow> 'w \<Rightarrow> int option \<times> 'w"
  make_syserror :: "string \<Rightarrow> 'w \<Rightarrow> string"
  make_error_broken_pipe :: "string \<Rightarrow> string"

section \<open>part_000: argument marshalling\<close>

fun cast_args_item :: "lua_value \<Rightarrow> string list \<Rightarrow> lua_error + string list"
and cast_args_array :: "lua_value list \<Rightarrow> string list \<Rightarrow> lua_error + string list" where
  "cast_args_array [] args = Inr args"
| "cast_args_array (v # vs) args =
     (case cast_args_item v args of
        Inl e \<Rightarrow> Inl e
      | Inr args' \<Rightarrow> cast_args_array vs args')"
| "cast_args_item (LString s) args = Inr (args @ [s])"
| "cast_args_item (LPath p) args = Inr (args @ [p])"
| "cast_args_item (LFile p) args = Inl (Bad_argument ''fs::path'')"
| "cast_args_item (LProcess p flds) args = Inl (Bad_argument ''fs::path'')"
| "cast_args_item (LUserdata u) args = Inl (Bad_argument ''fs::path'')"
| "cast_args_item (LTable arr flds) args = cast_args_array arr args"
| "cast_args_item v args = Inl (Unsupported_type (lua_typename v))"

fun cast_args :: "lua_value \<Rightarrow> lua_error + string list" where
  "cast_args (LTable arr flds) = cast_args_array arr []"
| "cast_args v = Inl (Bad_argument ''table'')"

section \<open>part_000: the spawn options\<close>

text \<open>Lines 164--182. \<^verbatim>\<open>lua::checkudata<fs::path>\<close> raises on any other userdata.\<close>

definition cast_cwd :: "lua_value \<Rightarrow> lua_error + string option" where
  "cast_cwd cfg =
     (case lua_getfield cfg ''cwd'' of
        LString s \<Rightarrow> Inr (Some s)
      | LPath p \<Rightarrow> Inr (Some p)
      | LFile p \<Rightarrow> Inl (Bad_argument ''fs::path'')
      | LProcess p flds \<Rightarrow> Inl (Bad_argument ''fs::path'')
      | LUserdata u \<Rightarrow> Inl (Bad_argument ''fs::path'')
      | _ \<Rightarrow> Inr None)"

text \<open>Lines 214--238: the userdata must carry one of the two file metatables.\<close>

definition get_file :: "lua_value \<Rightarrow> lua_error + luaL_Stream" where
  "get_file v = (case v of LFile p \<Rightarrow> Inr p | _ \<Rightarrow> Inl (Bad_argument ''FILE*''))"

definition pipe_ok :: "pipe_result \<Rightarrow> bool" where
  "pipe_ok p = (rd p \<noteq> None \<and> wr p \<noteq> None)"
  \<comment> \<open>\<^verbatim>\<open>operator bool() { return rd && wr; }\<close>\<close>

definition newfile :: "FILE \<Rightarrow> lua_value" where
  "newfile f = LFile \<lparr>stream_f = f, closef = True\<rparr>"

definition lua_pushvalue_top :: "lua_value \<Rightarrow> lua_value list \<Rightarrow> lua_value list" where
  "lua_pushvalue_top cfg stk = (case stk of [] \<Rightarrow> cfg # stk | v # rest \<Rightarrow> v # stk)"
  \<comment> \<open>\<^verbatim>\<open>lua_pushvalue(L, -1)\<close>; \<open>stk\<close> is the stack above the configuration table
      (index 1), top first\<close>

text \<open>
  Lines 240--288. The result is the handle for the child and the stack: a file userdata
  stays on the stack, a new pipe's parent end is pushed, and the alias case pushes a copy
  of the value on top.
\<close>

definition cast_stdio ::
  "'w core \<Rightarrow> lua_value \<Rightarrow> string \<Rightarrow> file_handle \<Rightarrow> lua_value list \<Rightarrow> 'w
     \<Rightarrow> (lua_error + file_handle \<times> lua_value list) \<times> 'w" where
  "cast_stdio K cfg name handle stk w =
     (case lua_getfield cfg name of
        LFile p \<Rightarrow>
          if \<not> closef p then (Inr (None, stk), w)
          else (case file_dup K (stream_f p) w of (h, w') \<Rightarrow> (Inr (h, LFile p # stk), w'))
      | LPath s \<Rightarrow> (Inl (Bad_argument ''FILE*''), w)
      | LProcess p flds \<Rightarrow> (Inl (Bad_argument ''FILE*''), w)
      | LUserdata u \<Rightarrow> (Inl (Bad_argument ''FILE*''), w)
      | LBoolean b \<Rightarrow>
          if \<not> b then (Inr (None, stk), w)
          else (case pipe_open K w of (pipe, w1) \<Rightarrow>
            if \<not> pipe_ok pipe then (Inr (None, stk), w1)
            else if name = ''stdin'' then
              (case pipe_open_write K pipe w1 of
                 (None, w2) \<Rightarrow> (Inr (None, stk), w2)
               | (Some f, w2) \<Rightarrow> (Inr (rd pipe, newfile f # stk), w2))
            else
              (case pipe_open_read K pipe w1 of
                 (None, w2) \<Rightarrow> (Inr (None, stk), w2)
               | (Some f, w2) \<Rightarrow> (Inr (wr pipe, newfile f # stk), w2)))
      | LString s \<Rightarrow>
          if name = ''stderr'' \<and> s = ''stdout'' \<and> handle \<noteq> None
          then (Inr (handle, lua_pushvalue_top cfg stk), w)
          else (Inr (None, stk), w)
      | _ \<Rightarrow> (Inr (None, stk), w))"

text \<open>Lines 290--296, the overload that takes the builder \<^verbatim>\<open>self\<close>.\<close>

definition cast_stdio_self ::
  "'w core \<Rightarrow> lua_value \<Rightarrow> spawn_builder \<Rightarrow> string \<Rightarrow> stdio \<Rightarrow> file_handle
     \<Rightarrow> lua_value list \<Rightarrow> 'w
     \<Rightarrow> (lua_error + file_handle \<times> spawn_builder \<times> lua_value list) \<times> 'w" where
  "cast_stdio_self K cfg self name type handle stk w =
     (case cast_stdio K cfg name handle stk w of
        (Inl e, w') \<Rightarrow> (Inl e, w')
      | (Inr (f, stk'), w') \<Rightarrow>
          (Inr (f, (if f \<noteq> None then self @ [Redirect type f] else self), stk'), w'))"

subsection \<open>Decimal text\<close>

text \<open>\<^verbatim>\<open>%d\<close> of \<^verbatim>\<open>lua_pushfstring\<close>, and Lua's conversion of an integer key to a string.\<close>

definition digit_char :: "nat \<Rightarrow> char" where
  "digit_char d = ''0123456789'' ! d"

function show_nat :: "nat \<Rightarrow> string" where
  "show_nat n = (if n < 10 then [digit_char n] else show_nat (n div 10) @ [digit_char (n mod 10)])"
  by pat_completeness auto
termination
  by (relation "measure (\<lambda>n. n)") auto

declare show_nat.simps [simp del]

definition show_int :: "int \<Rightarrow> string" where
  "show_int i = (if i < 0 then CHR ''-'' # show_nat (nat (- i)) else show_nat (nat i))"

subsection \<open>Environment\<close>

definition env_entry :: "string \<times> lua_value \<Rightarrow> env_call" where
  "env_entry kv = (case snd kv of LString s \<Rightarrow> Env_set (fst kv) s | _ \<Rightarrow> Env_del (fst kv))"
  \<comment> \<open>lines 303--308: a string value sets the variable, any other value deletes it\<close>

text \<open>
  The traversal of lines 301--310. String keys are visited in order. An entry of the
  array part has an integer key; \<^verbatim>\<open>lua::checkstring(L, -2)\<close> converts that key to its
  decimal text in place, so the following \<^verbatim>\<open>lua_next\<close> looks the text up: it goes on
  behind a field of that name, and raises when there is none.
\<close>

definition env_traverse :: "lua_value list \<Rightarrow> (string \<times> lua_value) list \<Rightarrow> lua_error + env_call list" where
  "env_traverse arr flds =
     (case dropWhile (\<lambda>v. v = LNil) arr of
        [] \<Rightarrow> Inr (map env_entry flds)
      | a # rest \<Rightarrow>
          (let key = show_int (int (length (takeWhile (\<lambda>v. v = LNil) arr)) + 1) in
           case dropWhile (\<lambda>kv. fst kv \<noteq> key) flds of
             [] \<Rightarrow> Inl Invalid_key_to_next
           | kv # later \<Rightarrow> Inr (env_entry (key, a) # map env_entry later)))"

definition cast_env :: "lua_value \<Rightarrow> spawn_builder \<Rightarrow> lua_error + spawn_builder" where
  "cast_env cfg self =
     (case lua_getfield cfg ''env'' of
        LTable arr flds \<Rightarrow>
          (case env_traverse arr flds of
             Inl e \<Rightarrow> Inl e
           | Inr calls \<Rightarrow> Inr (self @ [Env calls]))
      | _ \<Rightarrow> Inr (self @ [Env []]))"

definition cast_suspended :: "lua_value \<Rightarrow> spawn_builder \<Rightarrow> spawn_builder" where
  "cast_suspended cfg self =
     (case lua_getfield cfg ''suspended'' of
        LBoolean b \<Rightarrow> if b then self @ [Suspended] else self
      | _ \<Rightarrow> self)"

definition cast_detached :: "lua_value \<Rightarrow> spawn_builder \<Rightarrow> spawn_builder" where
  "cast_detached cfg self =
     (case lua_getfield cfg ''detached'' of
        LBoolean b \<Rightarrow> if b then self @ [Detached] else self
      | _ \<Rightarrow> self)"

definition cast_option :: "lua_value \<Rightarrow> spawn_builder \<Rightarrow> spawn_builder" where
  "cast_option cfg self = self"
  \<comment> \<open>line 371, the build without \<^verbatim>\<open>_WIN32\<close>\<close>

section \<open>part_000: spawn\<close>

text \<open>
  Lines 375--390 of \<^verbatim>\<open>spawn\<close>: everything up to the call of \<^verbatim>\<open>spawn.exec\<close>. \<open>None\<close>
  is the early \<^verbatim>\<open>return 0\<close> of line 379; otherwise the result holds the arguments, the
  working directory, the builder, the three handles and the stack above the table.
\<close>

type_synonym spawn_frame =
  "string list \<times> string option \<times> spawn_builder
     \<times> file_handle \<times> file_handle \<times> file_handle \<times> lua_value list"

definition spawn_setup ::
  "'w core \<Rightarrow> lua_value \<Rightarrow> 'w \<Rightarrow> (lua_error + spawn_frame option) \<times> 'w" where
  "spawn_setup K cfg w =
     (case cfg of
        LTable arr flds \<Rightarrow>
          (case cast_args cfg of
             Inl e \<Rightarrow> (Inl e, w)
           | Inr args \<Rightarrow>
               if length args = 0 then (Inr None, w)
               else
                 (case cast_cwd cfg of
                    Inl e \<Rightarrow> (Inl e, w)
                  | Inr cwd \<Rightarrow>
                 (case cast_env cfg [] of
                    Inl e \<Rightarrow> (Inl e, w)
                  | Inr sp1 \<Rightarrow>
                 (let sp2 = cast_suspended cfg sp1;
                      sp3 = cast_option cfg sp2;
                      sp4 = cast_detached cfg sp3
                  in
                 (case cast_stdio_self K cfg sp4 ''stdin'' eInput None [] w of
                    (Inl e, w1) \<Rightarrow> (Inl e, w1)
                  | (Inr (f_stdin, sp5, stk1), w1) \<Rightarrow>
                 (case cast_stdio_self K cfg sp5 ''stdout'' eOutput None stk1 w1 of
                    (Inl e, w2) \<Rightarrow> (Inl e, w2)
                  | (Inr (f_stdout, sp6, stk2), w2) \<Rightarrow>
                 (case cast_stdio_self K cfg sp6 ''stderr'' eError f_stdout stk2 w2 of
                    (Inl e, w3) \<Rightarrow> (Inl e, w3)
                  | (Inr (f_stderr, sp7, stk3), w3) \<Rightarrow>
                      (Inr (Some (args, cwd, sp7, f_stdin, f_stdout, f_stderr, stk3)), w3))))))))
      | _ \<Rightarrow> (Inl (Bad_argument ''table''), w))"

fun set_field :: "lua_value \<Rightarrow> string \<Rightarrow> lua_value \<Rightarrow> lua_value" where
  "set_field (LProcess p flds) name v = LProcess p ((name, v) # flds)"
| "set_field t name v = t"
  \<comment> \<open>\<^verbatim>\<open>mt_newindex\<close>, lines 120--132: the field goes into the userdata's user value\<close>

text \<open>
  Lines 397--408, one slot: \<^verbatim>\<open>if (f) { lua_insert(L, -2); lua_setfield(L, -2, name); }\<close>
  with the process userdata on top of the stack.
\<close>

fun attach_stdio :: "lua_value \<Rightarrow> string \<Rightarrow> file_handle \<Rightarrow> lua_value list \<Rightarrow> lua_value list" where
  "attach_stdio cfg name None stk = stk"
| "attach_stdio cfg name (Some h) (proc # v # rest) = set_field proc name v # rest"
| "attach_stdio cfg name (Some h) [proc] = [set_field proc name cfg]"
| "attach_stdio cfg name (Some h) [] = []"

definition spawn :: "'w core \<Rightarrow> lua_value \<Rightarrow> 'w \<Rightarrow> (lua_error + lua_value list) \<times> 'w" where
  "spawn K cfg w =
     (case spawn_setup K cfg w of
        (Inl e, w') \<Rightarrow> (Inl e, w')
      | (Inr None, w') \<Rightarrow> (Inr [], w')
      | (Inr (Some (args, cwd, sp, f_stdin, f_stdout, f_stderr, stk)), w') \<Rightarrow>
          (case spawn_exec K sp args cwd w' of
             (None, w'') \<Rightarrow>
               (Inr [LNil, LString (make_syserror K ''subprocess::spawn'' w'')], w'')
           | (Some p, w'') \<Rightarrow>
               (let stk1 = attach_stdio cfg ''stderr'' f_stderr (LProcess p [] # stk);
                    stk2 = attach_stdio cfg ''stdout'' f_stdout stk1;
                    stk3 = attach_stdio cfg ''stdin'' f_stdin stk2
                in (Inr (take 1 stk3), w''))))"

section \<open>part_000: the process handle and the pipe probe\<close>

definition lua_arg :: "lua_value list \<Rightarrow> nat \<Rightarrow> lua_value" where
  "lua_arg args i = (if 1 \<le> i \<and> i \<le> length args then args ! (i - 1) else LNil)"
  \<comment> \<open>the value at stack index \<open>i\<close> of a call; an absent argument reads as nil\<close>

definition to :: "lua_value list \<Rightarrow> nat \<Rightarrow> lua_error + process \<times> (string \<times> lua_value) list" where
  "to args i =
     (case lua_arg args i of
        LProcess p flds \<Rightarrow> Inr (p, flds)
      | _ \<Rightarrow> Inl (Bad_argument ''bee::subprocess''))"
  \<comment> \<open>lines 32--34, \<^verbatim>\<open>lua::checkudata<subprocess::process>\<close>\<close>


text \<open>Lines 78--82: \<open>get_id\<close> returns the engine's identifier as a Lua integer.\<close>

definition get_id :: "'w core \<Rightarrow> lua_value list \<Rightarrow> lua_error + lua_value list" where
  "get_id K args =
     (case to args 1 of
        Inl e \<Rightarrow> Inl e
      | Inr (p, flds) \<Rightarrow> Inr [LNumber (process_get_id K p)])"




definition SIGTERM :: int where
  "SIGTERM = 15"
  \<comment> \<open>the macro of \<^verbatim>\<open><signal.h>\<close>, included at line 10: 15 on POSIX systems and in
      the C runtime of Windows\<close>

definition fits_int :: "int \<Rightarrow> bool" where
  "fits_int n = (- (2 ^ 31) \<le> n \<and> n < 2 ^ 31)"

text \<open>
  Modelled from the spec: \<^verbatim>\<open>lua::optinteger<int, def>(L, arg)\<close> is a helper of
  \<^verbatim>\<open>binding/binding.h\<close>, which is not among the sources. The spec's
  \<open>kill(signal_or_default)\<close>: the template argument is the default, taken when the
  argument is absent or nil; a number is taken when it fits \<^verbatim>\<open>int\<close>. Lua's conversion
  of numeric strings is not modelled.
\<close>

definition optinteger :: "int \<Rightarrow> lua_value list \<Rightarrow> nat \<Rightarrow> lua_error + int" where
  "optinteger def args i =
     (case lua_arg args i of
        LNil \<Rightarrow> Inr def
      | LNumber n \<Rightarrow> if fits_int n then Inr n else Inl (Bad_argument ''int'')
      | _ \<Rightarrow> Inl (Bad_argument ''number''))"

text \<open>Lines 70--76.\<close>

definition kill :: "'w core \<Rightarrow> lua_value list \<Rightarrow> 'w \<Rightarrow> (lua_error + lua_value list) \<times> 'w" where
  "kill K args w =
     (case to args 1 of
        Inl e \<Rightarrow> (Inl e, w)
      | Inr (p, flds) \<Rightarrow>
          (case optinteger SIGTERM args 2 of
             Inl e \<Rightarrow> (Inl e, w)
           | Inr signum \<Rightarrow>
               (case process_kill K p signum w of
                  (ok, w') \<Rightarrow> (Inr [LBoolean ok], w'))))"

text \<open>Lines 428--446.\<close>

definition peek :: "'w core \<Rightarrow> lua_value list \<Rightarrow> 'w \<Rightarrow> (lua_error + lua_value list) \<times> 'w" where
  "peek K args w =
     (case get_file (lua_arg args 1) of
        Inl e \<Rightarrow> (Inl e, w)
      | Inr p \<Rightarrow>
          if \<not> closef p
          then (Inr [LNil, LString (make_error_broken_pipe K ''subprocess::peek'')], w)
          else
            (case pipe_peek K (stream_f p) w of
               (n, w') \<Rightarrow>
                 if n < 0
                 then (Inr [LNil, LString (make_syserror K ''subprocess::peek'' w')], w')
                 else (Inr [LNumber n], w')))"

section \<open>part_000 and part_001: waiting\<close>

text \<open>
  Modelled from the spec: the body of \<^verbatim>\<open>process::wait\<close> (called at part_000, line 59;
  the older engine's is declared in part_001, line 42) is not among the sources.
  The spec: \<^emph>\<open>\<open>wait()\<close> blocks the calling thread until the child terminates, or returns
  immediately if already exited\<close>; \<^emph>\<open>\<open>exit_status\<close>: present only after the process has
  been observed to terminate; immutable once set\<close>; \<^emph>\<open>a handle's \<open>exit_status\<close> is fetched
  at most effectively once from the OS (subsequent calls may return a cached value)\<close>.
  \<open>os_wait\<close> is the blocking request to the operating system; \<open>None\<close> is its failure.
\<close>

definition process_wait :: "'w core \<Rightarrow> process \<Rightarrow> 'w \<Rightarrow> int option \<times> process \<times> 'w" where
  "process_wait K p w =
     (case exit_status p of
        Some s \<Rightarrow> (Some s, p, w)
      | None \<Rightarrow>
          (case os_wait K (pid p) w of
             (None, w') \<Rightarrow> (None, p, w')
           | (Some s, w') \<Rightarrow> (Some s, p\<lparr>exit_status := Some s\<rparr>, w')))"

text \<open>part_000, lines 57--68: results, the handle afterwards, the world.\<close>

definition wait ::
  "'w core \<Rightarrow> lua_value list \<Rightarrow> 'w \<Rightarrow> (lua_error + lua_value list) \<times> lua_value option \<times> 'w" where
  "wait K args w =
     (case to args 1 of
        Inl e \<Rightarrow> (Inl e, None, w)
      | Inr (p, flds) \<Rightarrow>
          (case process_wait K p w of
             (Some s, p', w') \<Rightarrow> (Inr [LNumber s], Some (LProcess p' flds), w')
           | (None, p', w') \<Rightarrow>
               (Inr [LNil, LString (make_syserror K ''subprocess::wait'' w')],
                Some (LProcess p' flds), w')))"

section \<open>binding_subprocess.cpp\<close>

text \<open>Lines 129--148: a string is pushed, a table is flattened, anything else is skipped.\<close>

fun binding_cast_args_item :: "lua_value \<Rightarrow> string list \<Rightarrow> string list"
and binding_cast_args_array :: "lua_value list \<Rightarrow> string list \<Rightarrow> string list" where
  "binding_cast_args_array [] args = args"
| "binding_cast_args_array (v # vs) args =
     binding_cast_args_array vs (binding_cast_args_item v args)"
| "binding_cast_args_item (LString s) args = args @ [s]"
| "binding_cast_args_item (LTable arr flds) args = binding_cast_args_array arr args"
| "binding_cast_args_item v args = args"

fun binding_cast_args :: "lua_value \<Rightarrow> string list" where
  "binding_cast_args (LTable arr flds) = binding_cast_args_array arr []"
| "binding_cast_args v = []"

text \<open>Lines 88--96.\<close>

definition binding_cast_cwd :: "lua_value \<Rightarrow> string option" where
  "binding_cast_cwd cfg = (case lua_getfield cfg ''cwd'' of LString s \<Rightarrow> Some s | _ \<Rightarrow> None)"

text \<open>
  Lines 150--179: the \<^verbatim>\<open>FILE*\<close> for the child (\<open>None\<close> is \<^verbatim>\<open>nullptr\<close>) and the stack
  above the table. \<^verbatim>\<open>luaL_checkudata(L, -1, LUA_FILEHANDLE)\<close> raises on another userdata.
\<close>

definition binding_cast_stdio ::
  "'w core \<Rightarrow> lua_value \<Rightarrow> string \<Rightarrow> lua_value list \<Rightarrow> 'w
     \<Rightarrow> (lua_error + FILE option \<times> lua_value list) \<times> 'w" where
  "binding_cast_stdio K cfg name stk w =
     (case lua_getfield cfg name of
        LFile p \<Rightarrow> (Inr (Some (stream_f p), LFile p # stk), w)
      | LPath s \<Rightarrow> (Inl (Bad_argument ''FILE*''), w)
      | LProcess p flds \<Rightarrow> (Inl (Bad_argument ''FILE*''), w)
      | LUserdata u \<Rightarrow> (Inl (Bad_argument ''FILE*''), w)
      | LBoolean b \<Rightarrow>
          if \<not> b then (Inr (None, stk), w)
          else
            (case pipe_open_FILE K w of
               ((Some r, Some t), w1) \<Rightarrow>
                 if name = ''stdin'' then (Inr (Some r, newfile t # stk), w1)
                 else (Inr (Some t, newfile r # stk), w1)
             | (other, w1) \<Rightarrow> (Inr (None, stk), w1))
      | _ \<Rightarrow> (Inr (None, stk), w))"

subsection \<open>Table traversal\<close>

definition table_pairs :: "lua_value list \<Rightarrow> (string \<times> lua_value) list \<Rightarrow> (lua_value \<times> lua_value) list" where
  "table_pairs arr flds =
     filter (\<lambda>kv. snd kv \<noteq> LNil) (zip (map (\<lambda>i. LNumber (int i + 1)) [0..<length arr]) arr)
       @ map (\<lambda>kv. (LString (fst kv), snd kv)) flds"
  \<comment> \<open>the pairs of a table in the order in which \<^verbatim>\<open>lua_next\<close> visits them\<close>

definition first_pair :: "(lua_value \<times> lua_value) list \<Rightarrow> (lua_value \<times> lua_value) option" where
  "first_pair kvs = (case kvs of [] \<Rightarrow> None | kv # later \<Rightarrow> Some kv)"

definition in_array_upto :: "int \<Rightarrow> lua_value \<Rightarrow> bool" where
  "in_array_upto i k = (case k of LNumber j \<Rightarrow> j \<le> i | _ \<Rightarrow> False)"

text \<open>
  \<^verbatim>\<open>lua_next(L, idx)\<close> of the Lua API: the table at \<open>idx\<close> and the key popped from the top
  of the stack give the next pair, \<open>None\<close> at the end of the table. A key that is neither
  nil nor a key of the table raises \<^emph>\<open>invalid key to 'next'\<close>.
\<close>

fun lua_next :: "lua_value \<Rightarrow> lua_value \<Rightarrow> lua_error + (lua_value \<times> lua_value) option" where
  "lua_next (LTable arr flds) key =
     (case key of
        LNil \<Rightarrow> Inr (first_pair (table_pairs arr flds))
      | LNumber i \<Rightarrow>
          if 1 \<le> i \<and> i \<le> int (length arr)
          then Inr (first_pair (dropWhile (\<lambda>kv. in_array_upto i (fst kv)) (table_pairs arr flds)))
          else Inl Invalid_key_to_next
      | _ \<Rightarrow>
          (case dropWhile (\<lambda>kv. fst kv \<noteq> key) (table_pairs arr flds) of
             [] \<Rightarrow> Inl Invalid_key_to_next
           | kv # later \<Rightarrow> Inr (first_pair later)))"
| "lua_next v key = Inl Api_misuse"

text \<open>
  Lines 181--195. After \<^verbatim>\<open>lua_getfield(L, 1, "env")\<close> the environment table is on top of
  the stack, and line 183 calls \<^verbatim>\<open>lua_next(L, 1)\<close>: the table traversed is the
  configuration table at index 1 and the key popped is the environment table. Had that
  call returned, the loop of line 184 would call \<^verbatim>\<open>lua_next(L, -2)\<close> on a stack slot
  that holds no table.
\<close>

definition binding_cast_env :: "lua_value \<Rightarrow> spawn_builder \<Rightarrow> lua_error + spawn_builder" where
  "binding_cast_env cfg self =
     (case lua_getfield cfg ''env'' of
        LTable arr flds \<Rightarrow>
          (case lua_next cfg (LTable arr flds) of
             Inl e \<Rightarrow> Inl e
           | Inr r \<Rightarrow> Inl Api_misuse)
      | _ \<Rightarrow> Inr self)"

definition binding_cast_suspended :: "lua_value \<Rightarrow> spawn_builder \<Rightarrow> spawn_builder" where
  "binding_cast_suspended cfg self =
     (case lua_getfield cfg ''suspended'' of
        LBoolean b \<Rightarrow> if b then self @ [Suspended] else self
      | _ \<Rightarrow> self)"

text \<open>Lines 249--263, one slot: redirect and count when the \<^verbatim>\<open>FILE*\<close> is not null.\<close>

definition binding_redirect ::
  "'w core \<Rightarrow> lua_value \<Rightarrow> spawn_builder \<Rightarrow> string \<Rightarrow> stdio \<Rightarrow> nat \<Rightarrow> lua_value list \<Rightarrow> 'w
     \<Rightarrow> (lua_error + spawn_builder \<times> nat \<times> lua_value list) \<times> 'w" where
  "binding_redirect K cfg self name type retn stk w =
     (case binding_cast_stdio K cfg name stk w of
        (Inl e, w') \<Rightarrow> (Inl e, w')
      | (Inr (None, stk'), w') \<Rightarrow> (Inr (self, retn, stk'), w')
      | (Inr (Some f, stk'), w') \<Rightarrow> (Inr (self @ [Redirect_FILE type f], retn + 1, stk'), w'))"

text \<open>
  Lines 235--271, the build without \<^verbatim>\<open>_WIN32\<close> (\<^verbatim>\<open>cast_option\<close> is empty there,
  lines 231--232). On success the process userdata is pushed, moved below the \<open>retn - 1\<close>
  values above it (\<^verbatim>\<open>lua_insert(L, -retn)\<close>) and the top \<open>retn\<close> values are returned,
  the deepest first.
\<close>

definition binding_spawn :: "'w core \<Rightarrow> lua_value \<Rightarrow> 'w \<Rightarrow> (lua_error + lua_value list) \<times> 'w" where
  "binding_spawn K cfg w =
     (case cfg of
        LTable arr flds \<Rightarrow>
          (let args = binding_cast_args cfg in
           if length args \<le> 1 then (Inr [], w)
           else
             (let cwd = binding_cast_cwd cfg in
              case binding_cast_env cfg [] of
                Inl e \<Rightarrow> (Inl e, w)
              | Inr sp1 \<Rightarrow>
             (let sp2 = binding_cast_suspended cfg sp1 in
              case binding_redirect K cfg sp2 ''stdin'' eInput 0 [] w of
                (Inl e, w1) \<Rightarrow> (Inl e, w1)
              | (Inr (sp3, retn1, stk1), w1) \<Rightarrow>
             (case binding_redirect K cfg sp3 ''stdout'' eOutput retn1 stk1 w1 of
                (Inl e, w2) \<Rightarrow> (Inl e, w2)
              | (Inr (sp4, retn2, stk2), w2) \<Rightarrow>
             (case binding_redirect K cfg sp4 ''stderr'' eError retn2 stk2 w2 of
                (Inl e, w3) \<Rightarrow> (Inl e, w3)
              | (Inr (sp5, retn3, stk3), w3) \<Rightarrow>
             (case spawn_exec K sp5 args cwd w3 of
                (None, w4) \<Rightarrow> (Inr [], w4)
              | (Some p, w4) \<Rightarrow>
                  (let retn = retn3 + 1;
                       stk4 = take (retn - 1) stk3 @ [LProcess p []] @ drop (retn - 1) stk3
                   in (Inr (rev (take retn stk4)), w4))))))))
      | _ \<Rightarrow> (Inl (Bad_argument ''table''), w))"

definition binding_to :: "lua_value list \<Rightarrow> nat \<Rightarrow> lua_error + process" where
  "binding_to args i =
     (case lua_arg args i of
        LProcess p flds \<Rightarrow> Inr p
      | _ \<Rightarrow> Inl (Bad_argument ''subprocess''))"
  \<comment> \<open>lines 39--41\<close>

definition to_int :: "int \<Rightarrow> int" where
  "to_int n = (n + 2 ^ 31) mod 2 ^ 32 - 2 ^ 31"
  \<comment> \<open>the cast \<^verbatim>\<open>(int)\<close> of a 64-bit \<^verbatim>\<open>lua_Integer\<close>\<close>

definition luaL_optinteger :: "lua_value list \<Rightarrow> nat \<Rightarrow> int \<Rightarrow> lua_error + int" where
  "luaL_optinteger args i def =
     (case lua_arg args i of
        LNil \<Rightarrow> Inr def
      | LNumber n \<Rightarrow> Inr n
      | _ \<Rightarrow> Inl (Bad_argument ''number''))"
  \<comment> \<open>the Lua auxiliary library; its conversion of numeric strings is not modelled\<close>

text \<open>Lines 55--60.\<close>

definition binding_kill :: "'w core \<Rightarrow> lua_value list \<Rightarrow> 'w \<Rightarrow> (lua_error + lua_value list) \<times> 'w" where
  "binding_kill K args w =
     (case binding_to args 1 of
        Inl e \<Rightarrow> (Inl e, w)
      | Inr p \<Rightarrow>
          (case luaL_optinteger args 2 15 of
             Inl e \<Rightarrow> (Inl e, w)
           | Inr n \<Rightarrow>
               (case process_kill K p (to_int n) w of
                  (ok, w') \<Rightarrow> (Inr [LBoolean ok], w'))))"

text \<open>Lines 274--278.\<close>

definition binding_peek :: "'w core \<Rightarrow> lua_value list \<Rightarrow> 'w \<Rightarrow> (lua_error + lua_value list) \<times> 'w" where
  "binding_peek K args w =
     (case lua_arg args 1 of
        LFile p \<Rightarrow> (case pipe_peek K (stream_f p) w of (n, w') \<Rightarrow> (Inr [LNumber n], w'))
      | _ \<Rightarrow> (Inl (Bad_argument ''FILE*''), w))"

section \<open>Reading a builder\<close>

fun redirects :: "spawn_builder \<Rightarrow> (stdio \<times> file_handle) list" where
  "redirects [] = []"
| "redirects (Redirect t f # cs) = (t, f) # redirects cs"
| "redirects (c # cs) = redirects cs"

definition slot :: "spawn_builder \<Rightarrow> stdio \<Rightarrow> file_handle" where
  "slot sp t = (case map_of (redirects sp) t of None \<Rightarrow> None | Some f \<Rightarrow> f)"
  \<comment> \<open>the handle that the builder was told to bind to a standard stream of the child;
      \<open>None\<close>: no \<^verbatim>\<open>redirect\<close> call was made for it, the child inherits the parent's\<close>

section \<open>A simulated engine\<close>

text \<open>
  A small executable engine, used to run the bindings on concrete inputs. Its world is a
  process table, the next free descriptor, the text of the last system error and the
  exit status that a child reports when it is waited for.
\<close>

record sim_world =
  sim_procs :: "int list"
  sim_next :: nat
  sim_errno :: string
  sim_exit :: int

definition sim_exec ::
  "spawn_builder \<Rightarrow> string list \<Rightarrow> string option \<Rightarrow> sim_world \<Rightarrow> process option \<times> sim_world" where
  "sim_exec sp args cwd w =
     (if args \<noteq> [] \<and> hd args \<in> {''/bin/true'', ''/bin/sh'', ''/usr/bin/env''}
      then (let child = 100 + int (length (sim_procs w)) in
            (Some \<lparr>pid = child, exit_status = None\<rparr>, w\<lparr>sim_procs := child # sim_procs w\<rparr>))
      else (None, w\<lparr>sim_errno := ''No such file or directory''\<rparr>))"

definition sim_core :: "sim_world core" where
  "sim_core =
     \<lparr>pipe_open = (\<lambda>w. (\<lparr>rd = Some (sim_next w), wr = Some (sim_next w + 1)\<rparr>,
                          w\<lparr>sim_next := sim_next w + 2\<rparr>)),
      pipe_open_write = (\<lambda>p w. (wr p, w)),
      pipe_open_read = (\<lambda>p w. (rd p, w)),
      pipe_open_FILE = (\<lambda>w. ((Some (sim_next w), Some (sim_next w + 1)),
                               w\<lparr>sim_next := sim_next w + 2\<rparr>)),
      file_dup = (\<lambda>f w. (Some (sim_next w), w\<lparr>sim_next := sim_next w + 1\<rparr>)),
      pipe_peek = (\<lambda>f w. ((if f < 3 then - 1 else 0), w)),
      spawn_exec = sim_exec,
      process_detach_core = (\<lambda>p w. (pid p \<notin> set (sim_procs w), p, w)),
      process_destroy = (\<lambda>p w. w),
      process_kill = (\<lambda>p signum w. (pid p \<in> set (sim_procs w), w)),
      process_get_id = pid,
      os_wait = (\<lambda>child w.
        if child \<in> set (sim_procs w)
        then (Some (sim_exit w), w\<lparr>sim_procs := removeAll child (sim_procs w)\<rparr>)
        else (None, w\<lparr>sim_errno := ''No child processes''\<rparr>)),
      make_syserror = (\<lambda>what w. what @ '': '' @ sim_errno w),
      make_error_broken_pipe = (\<lambda>what. what @ '': Broken pipe'')\<rparr>"

definition sim_start :: sim_world where
  "sim_start = \<lparr>sim_procs = [], sim_next = 3, sim_errno = [], sim_exit = 0\<rparr>"

section \<open>Spawning with no arguments\<close>

text \<open>
  C1. A configuration table whose flattened argument list is empty makes \<open>spawn\<close>
  return no value at all, in both bindings, whatever the engine is: the world comes back
  as it was given, so neither \<open>spawn_exec\<close> nor any other engine call was made.
\<close>

theorem spawn_without_arguments:
  "(cast_args (LTable arr flds) = Inr [] \<longrightarrow>
      spawn K (LTable arr flds) w = (Inr [], w)) \<and>
   (binding_cast_args (LTable arr flds) = [] \<longrightarrow>
      binding_spawn K (LTable arr flds) w = (Inr [], w))"
  by (simp add: spawn_def spawn_setup_def binding_spawn_def)

theorem spawn_without_arguments_witness:
  "spawn sim_core (LTable [LTable [] []] [(''stdout'', LBoolean True)]) sim_start = (Inr [], sim_start) \<and>
   binding_spawn sim_core (LTable [LTable [] []] [(''stdout'', LBoolean True)]) sim_start
     = (Inr [], sim_start)"
  using spawn_without_arguments
    [of "[LTable [] []]" "[(''stdout'', LBoolean True)]" sim_core sim_start]
  by simp

section \<open>Facts about the marshalling helpers\<close>

lemma redirects_append: "redirects (xs @ ys) = redirects xs @ redirects ys"
  by (induction xs rule: redirects.induct) simp_all

lemma redirects_cast_env: "cast_env cfg self = Inr sp \<Longrightarrow> redirects sp = redirects self"
  by (auto simp: cast_env_def redirects_append split: lua_value.splits sum.splits)

lemma redirects_cast_suspended: "redirects (cast_suspended cfg self) = redirects self"
  by (simp add: cast_suspended_def redirects_append split: lua_value.splits)

lemma redirects_cast_detached: "redirects (cast_detached cfg self) = redirects self"
  by (simp add: cast_detached_def redirects_append split: lua_value.splits)

lemma cast_stdio_self_builder:
  "cast_stdio_self K cfg self name t h stk w = (Inr (f, sp, stk'), w') \<Longrightarrow>
     sp = self @ (if f \<noteq> None then [Redirect t f] else [])"
  by (auto simp: cast_stdio_self_def split: prod.splits sum.splits)

lemma cast_stdio_alias:
  "lua_getfield cfg ''stderr'' = LString ''stdout'' \<Longrightarrow>
     cast_stdio K cfg ''stderr'' h stk w
       = (Inr (h, (if h \<noteq> None then lua_pushvalue_top cfg stk else stk)), w)"
  by (simp add: cast_stdio_def)

lemma spawn_setup_frame:
  assumes "spawn_setup K cfg w = (Inr (Some (args, cwd, sp, f_stdin, f_stdout, f_stderr, stk)), w')"
  shows "\<exists>sp4 stk1 w1 sp5 stk2 w2 sp6.
           redirects sp4 = [] \<and>
           cast_stdio_self K cfg sp4 ''stdin'' eInput None [] w = (Inr (f_stdin, sp5, stk1), w1) \<and>
           cast_stdio_self K cfg sp5 ''stdout'' eOutput None stk1 w1 = (Inr (f_stdout, sp6, stk2), w2) \<and>
           cast_stdio_self K cfg sp6 ''stderr'' eError f_stdout stk2 w2 = (Inr (f_stderr, sp, stk), w')"
proof (cases cfg)
  case (LTable arr flds)
  from assms obtain args' cwd' sp1 where
    env: "cast_env cfg [] = Inr sp1"
    and rest: "(case cast_stdio_self K cfg (cast_detached cfg (cast_option cfg (cast_suspended cfg sp1)))
                  ''stdin'' eInput None [] w of
                 (Inl e, w1) \<Rightarrow> (Inl e, w1)
               | (Inr (f_stdin, sp5, stk1), w1) \<Rightarrow>
                 (case cast_stdio_self K cfg sp5 ''stdout'' eOutput None stk1 w1 of
                    (Inl e, w2) \<Rightarrow> (Inl e, w2)
                  | (Inr (f_stdout, sp6, stk2), w2) \<Rightarrow>
                 (case cast_stdio_self K cfg sp6 ''stderr'' eError f_stdout stk2 w2 of
                    (Inl e, w3) \<Rightarrow> (Inl e, w3)
                  | (Inr (f_stderr, sp7, stk3), w3) \<Rightarrow>
                      (Inr (Some (args', cwd', sp7, f_stdin, f_stdout, f_stderr, stk3)), w3))))
               = (Inr (Some (args, cwd, sp, f_stdin, f_stdout, f_stderr, stk)), w')"
    unfolding spawn_setup_def LTable
    by (auto simp: Let_def split: sum.splits if_splits)
  let ?sp4 = "cast_detached cfg (cast_option cfg (cast_suspended cfg sp1))"
  have "redirects ?sp4 = []"
    using redirects_cast_env [OF env]
    by (simp add: redirects_cast_detached redirects_cast_suspended cast_option_def)
  moreover from rest have
    "\<exists>stk1 w1 sp5 stk2 w2 sp6.
       cast_stdio_self K cfg ?sp4 ''stdin'' eInput None [] w = (Inr (f_stdin, sp5, stk1), w1) \<and>
       cast_stdio_self K cfg sp5 ''stdout'' eOutput None stk1 w1 = (Inr (f_stdout, sp6, stk2), w2) \<and>
       cast_stdio_self K cfg sp6 ''stderr'' eError f_stdout stk2 w2 = (Inr (f_stderr, sp, stk), w')"
    by (auto split: prod.splits sum.splits)
  ultimately show ?thesis by blast
qed (use assms in \<open>simp_all add: spawn_setup_def\<close>)

section \<open>Aliasing the error stream to the output stream\<close>

text \<open>
  C7, as the code has it. When the configuration binds \<open>stderr\<close> to the string
  \<open>"stdout"\<close> and the output slot resolved to a handle (\<open>f_stdout\<close> is not empty), the
  builder that \<open>spawn\<close> hands to \<open>spawn_exec\<close> binds the child's error stream and the
  child's output stream to that one handle.
\<close>

theorem stderr_alias_of_redirected_stdout:
  assumes "lua_getfield cfg ''stderr'' = LString ''stdout''"
    and "spawn_setup K cfg w = (Inr (Some (args, cwd, sp, f_stdin, f_stdout, f_stderr, stk)), w')"
    and "f_stdout \<noteq> None"
  shows "f_stderr = f_stdout \<and> slot sp eOutput = f_stdout \<and> slot sp eError = f_stdout"
proof -
  from spawn_setup_frame [OF assms(2)] obtain sp4 stk1 w1 sp5 stk2 w2 sp6 where
    none: "redirects sp4 = []"
    and i: "cast_stdio_self K cfg sp4 ''stdin'' eInput None [] w = (Inr (f_stdin, sp5, stk1), w1)"
    and out: "cast_stdio_self K cfg sp5 ''stdout'' eOutput None stk1 w1 = (Inr (f_stdout, sp6, stk2), w2)"
    and err: "cast_stdio_self K cfg sp6 ''stderr'' eError f_stdout stk2 w2 = (Inr (f_stderr, sp, stk), w')"
    by blast
  have same: "f_stderr = f_stdout"
    using err by (simp add: cast_stdio_self_def cast_stdio_alias [OF assms(1)])
  have sp: "redirects sp =
      (if f_stdin \<noteq> None then [(eInput, f_stdin)] else []) @ [(eOutput, f_stdout), (eError, f_stdout)]"
    using cast_stdio_self_builder [OF i] cast_stdio_self_builder [OF out]
      cast_stdio_self_builder [OF err] none same assms(3)
    by (simp add: redirects_append)
  show ?thesis
    using same by (simp add: slot_def sp)
qed

theorem stderr_alias_of_redirected_stdout_witness:
  "lua_getfield (LTable [LString ''/bin/sh'']
       [(''stdout'', LBoolean True), (''stderr'', LString ''stdout'')]) ''stderr'' = LString ''stdout'' \<and>
   spawn_setup sim_core (LTable [LString ''/bin/sh'']
       [(''stdout'', LBoolean True), (''stderr'', LString ''stdout'')]) sim_start
     = (Inr (Some ([''/bin/sh''], None,
          [Env [], Redirect eOutput (Some 4), Redirect eError (Some 4)],
          None, Some 4, Some 4, [newfile 3, newfile 3])),
        sim_start\<lparr>sim_next := 5\<rparr>) \<and>
   slot [Env [], Redirect eOutput (Some 4), Redirect eError (Some 4)] eOutput = Some 4 \<and>
   slot [Env [], Redirect eOutput (Some 4), Redirect eError (Some 4)] eError = Some 4"
proof -
  let ?cfg = "LTable [LString ''/bin/sh'']
       [(''stdout'', LBoolean True), (''stderr'', LString ''stdout'')]"
  let ?sp = "[Env [], Redirect eOutput (Some 4), Redirect eError (Some 4)]"
  have a: "lua_getfield ?cfg ''stderr'' = LString ''stdout''"
    by simp
  have b: "spawn_setup sim_core ?cfg sim_start
     = (Inr (Some ([''/bin/sh''], None, ?sp, None, Some 4, Some 4, [newfile 3, newfile 3])),
        sim_start\<lparr>sim_next := 5\<rparr>)"
    by (simp add: spawn_setup_def cast_cwd_def cast_env_def cast_suspended_def cast_option_def
        cast_detached_def cast_stdio_self_def cast_stdio_def sim_core_def sim_start_def pipe_ok_def
        lua_pushvalue_top_def)
  have c: "Some (4::nat) \<noteq> None"
    by simp
  from stderr_alias_of_redirected_stdout [OF a b c] a b show ?thesis
    by simp
qed

text \<open>
  C7 as the claim states it, for every configuration that asks for the alias, fails on a
  configuration whose output slot is not redirected: \<open>{"/bin/sh", stderr = "stdout"}\<close>.
  The builder then holds no \<open>redirect\<close> call at all and the error slot is left empty.
\<close>

theorem stderr_alias_counterexample:
  "lua_getfield (LTable [LString ''/bin/sh''] [(''stderr'', LString ''stdout'')]) ''stderr''
     = LString ''stdout'' \<and>
   spawn_setup sim_core (LTable [LString ''/bin/sh''] [(''stderr'', LString ''stdout'')]) sim_start
     = (Inr (Some ([''/bin/sh''], None, [Env []], None, None, None, [])), sim_start) \<and>
   slot [Env []] eError = None \<and>
   redirects [Env []] = []"
  by (simp add: spawn_setup_def cast_cwd_def cast_env_def cast_suspended_def cast_option_def
      cast_detached_def cast_stdio_self_def cast_stdio_def sim_core_def sim_start_def slot_def)

text \<open>
  C10. With \<open>stderr\<close> bound to the string \<open>"stdout"\<close> and an empty handle for the output
  slot, the error slot resolves to the empty handle: no error is raised, no
  \<open>redirect\<close> call is made, nothing is pushed and the engine is not called. In
  \<open>spawn\<close> the builder handed to \<open>spawn_exec\<close> then leaves the child's error stream to
  inherit the parent's.
\<close>

theorem stderr_alias_ignored_without_stdout:
  assumes "lua_getfield cfg ''stderr'' = LString ''stdout''"
  shows "cast_stdio_self K cfg self ''stderr'' eError None stk w = (Inr (None, self, stk), w) \<and>
         (spawn_setup K cfg w = (Inr (Some (args, cwd, sp, f_stdin, None, f_stderr, stk')), w') \<longrightarrow>
            f_stderr = None \<and> slot sp eError = None)"
proof -
  have first: "cast_stdio_self K cfg self ''stderr'' eError None stk w = (Inr (None, self, stk), w)"
    for self stk w
    by (simp add: cast_stdio_self_def cast_stdio_alias [OF assms])
  have "f_stderr = None \<and> slot sp eError = None"
    if frame: "spawn_setup K cfg w = (Inr (Some (args, cwd, sp, f_stdin, None, f_stderr, stk')), w')"
  proof -
    from spawn_setup_frame [OF frame] obtain sp4 stk1 w1 sp5 stk2 w2 sp6 where
      none: "redirects sp4 = []"
      and i: "cast_stdio_self K cfg sp4 ''stdin'' eInput None [] w = (Inr (f_stdin, sp5, stk1), w1)"
      and out: "cast_stdio_self K cfg sp5 ''stdout'' eOutput None stk1 w1 = (Inr (None, sp6, stk2), w2)"
      and err: "cast_stdio_self K cfg sp6 ''stderr'' eError None stk2 w2 = (Inr (f_stderr, sp, stk'), w')"
      by blast
    from err first have e: "f_stderr = None" "sp = sp6"
      by simp_all
    have "redirects sp = (if f_stdin \<noteq> None then [(eInput, f_stdin)] else [])"
      using cast_stdio_self_builder [OF i] cast_stdio_self_builder [OF out] none e
      by (simp add: redirects_append)
    then show ?thesis
      using e by (simp add: slot_def)
  qed
  with first show ?thesis
    by blast
qed

theorem stderr_alias_ignored_without_stdout_witness:
  "lua_getfield (LTable [LString ''/bin/sh''] [(''stderr'', LString ''stdout''), (''stdin'', LBoolean True)])
      ''stderr'' = LString ''stdout'' \<and>
   cast_stdio_self sim_core
      (LTable [LString ''/bin/sh''] [(''stderr'', LString ''stdout''), (''stdin'', LBoolean True)])
      [Env []] ''stderr'' eError None [] sim_start = (Inr (None, [Env []], []), sim_start) \<and>
   spawn_setup sim_core
      (LTable [LString ''/bin/sh''] [(''stderr'', LString ''stdout''), (''stdin'', LBoolean True)]) sim_start
     = (Inr (Some ([''/bin/sh''], None, [Env [], Redirect eInput (Some 3)], Some 3, None, None,
          [newfile 4])), sim_start\<lparr>sim_next := 5\<rparr>) \<and>
   slot [Env [], Redirect eInput (Some 3)] eError = None"
proof -
  let ?cfg = "LTable [LString ''/bin/sh''] [(''stderr'', LString ''stdout''), (''stdin'', LBoolean True)]"
  have a: "lua_getfield ?cfg ''stderr'' = LString ''stdout''"
    by simp
  have b: "spawn_setup sim_core ?cfg sim_start
     = (Inr (Some ([''/bin/sh''], None, [Env [], Redirect eInput (Some 3)], Some 3, None, None,
          [newfile 4])), sim_start\<lparr>sim_next := 5\<rparr>)"
    by (simp add: spawn_setup_def cast_cwd_def cast_env_def cast_suspended_def cast_option_def
        cast_detached_def cast_stdio_self_def cast_stdio_def sim_core_def sim_start_def pipe_ok_def)
  from stderr_alias_ignored_without_stdout [OF a, of sim_core "[Env []]" "[]" sim_start
      "[''/bin/sh'']" None "[Env [], Redirect eInput (Some 3)]" "Some 3" None "[newfile 4]"
      "sim_start\<lparr>sim_next := 5\<rparr>"] a b
  show ?thesis
    by simp
qed

section \<open>Signalling a child\<close>

text \<open>
  C9. In both bindings \<open>kill\<close> without a signal argument (absent, or nil) hands the
  engine the signal 15, which is \<open>SIGTERM\<close>, and returns one boolean: the very value the
  engine's \<open>kill\<close> returned for that request. No other engine call is made, so the
  result does not say whether the child has died.
\<close>

theorem kill_default_signal:
  "SIGTERM = 15 \<and>
   kill K [LProcess p flds] w
     = (Inr [LBoolean (fst (process_kill K p 15 w))], snd (process_kill K p 15 w)) \<and>
   kill K [LProcess p flds, LNil] w
     = (Inr [LBoolean (fst (process_kill K p 15 w))], snd (process_kill K p 15 w)) \<and>
   binding_kill K [LProcess p flds] w
     = (Inr [LBoolean (fst (process_kill K p 15 w))], snd (process_kill K p 15 w)) \<and>
   binding_kill K [LProcess p flds, LNil] w
     = (Inr [LBoolean (fst (process_kill K p 15 w))], snd (process_kill K p 15 w))"
  by (simp add: kill_def binding_kill_def to_def binding_to_def lua_arg_def optinteger_def
      luaL_optinteger_def SIGTERM_def to_int_def split: prod.splits)

section \<open>Tearing a handle down\<close>




section \<open>Waiting twice\<close>

text \<open>
  C3, against \<open>process_wait\<close> as modelled from the spec. Three facts, for every engine:
  \<^item> a \<open>wait\<close> on a handle with no cached status returns the very status that the
    operating system reported for the child, and leaves it cached on the handle;
  \<^item> a \<open>wait\<close> on a handle with a cached status returns that status whatever the engine
    and the world are: the operating system is not asked (the world is returned as
    given, so the call cannot block) and no error is returned;
  \<^item> so whenever a \<open>wait\<close> has returned a status, that status is the engine's answer
    (the cached one, or else the one just fetched from the operating system), the handle
    it left holds it, and a further \<open>wait\<close> on that handle returns the same status
    without touching the world.
\<close>

theorem wait_twice_same_status:
  "(exit_status p = None \<and> os_wait K (pid p) w = (Some s, w') \<longrightarrow>
      wait K [LProcess p flds] w
        = (Inr [LNumber s], Some (LProcess (p\<lparr>exit_status := Some s\<rparr>) flds), w')) \<and>
   (exit_status p = Some s \<longrightarrow>
      wait K' [LProcess p flds] w'' = (Inr [LNumber s], Some (LProcess p flds), w'')) \<and>
   (wait K [LProcess p flds] w = (Inr [LNumber s], Some h, w') \<longrightarrow>
      process_wait K p w = (Some s, p\<lparr>exit_status := Some s\<rparr>, w') \<and>
      (case exit_status p of
         None \<Rightarrow> os_wait K (pid p) w = (Some s, w')
       | Some c \<Rightarrow> c = s \<and> w' = w) \<and>
      h = LProcess (p\<lparr>exit_status := Some s\<rparr>) flds \<and>
      wait K' [h] w'' = (Inr [LNumber s], Some h, w''))"
proof (intro conjI impI)
  assume "exit_status p = None \<and> os_wait K (pid p) w = (Some s, w')"
  then show "wait K [LProcess p flds] w
        = (Inr [LNumber s], Some (LProcess (p\<lparr>exit_status := Some s\<rparr>) flds), w')"
    by (simp add: wait_def to_def lua_arg_def process_wait_def)
next
  assume "exit_status p = Some s"
  then show "wait K' [LProcess p flds] w'' = (Inr [LNumber s], Some (LProcess p flds), w'')"
    by (simp add: wait_def to_def lua_arg_def process_wait_def)
next
  assume first: "wait K [LProcess p flds] w = (Inr [LNumber s], Some h, w')"
  then have relay: "process_wait K p w = (Some s, p\<lparr>exit_status := Some s\<rparr>, w')"
    and h: "h = LProcess (p\<lparr>exit_status := Some s\<rparr>) flds"
    by (auto simp: wait_def to_def lua_arg_def process_wait_def
        split: option.splits prod.splits)
  from relay show "process_wait K p w = (Some s, p\<lparr>exit_status := Some s\<rparr>, w')" .
  from relay show "case exit_status p of
         None \<Rightarrow> os_wait K (pid p) w = (Some s, w')
       | Some c \<Rightarrow> c = s \<and> w' = w"
    by (auto simp: process_wait_def split: option.splits prod.splits)
  from h show "h = LProcess (p\<lparr>exit_status := Some s\<rparr>) flds" .
  show "wait K' [h] w'' = (Inr [LNumber s], Some h, w'')"
    by (simp add: h wait_def to_def lua_arg_def process_wait_def)
qed

theorem wait_twice_same_status_witness:
  "exit_status \<lparr>pid = 100, exit_status = None\<rparr> = None \<and>
   os_wait sim_core 100 (sim_start\<lparr>sim_procs := [100], sim_exit := 7\<rparr>)
     = (Some 7, sim_start\<lparr>sim_exit := 7\<rparr>) \<and>
   wait sim_core [LProcess \<lparr>pid = 100, exit_status = None\<rparr> []]
       (sim_start\<lparr>sim_procs := [100], sim_exit := 7\<rparr>)
     = (Inr [LNumber 7], Some (LProcess \<lparr>pid = 100, exit_status = Some 7\<rparr> []),
        sim_start\<lparr>sim_exit := 7\<rparr>) \<and>
   process_wait sim_core \<lparr>pid = 100, exit_status = None\<rparr>
       (sim_start\<lparr>sim_procs := [100], sim_exit := 7\<rparr>)
     = (Some 7, \<lparr>pid = 100, exit_status = Some 7\<rparr>, sim_start\<lparr>sim_exit := 7\<rparr>) \<and>
   wait sim_core [LProcess \<lparr>pid = 100, exit_status = Some 7\<rparr> []] (sim_start\<lparr>sim_exit := 3\<rparr>)
     = (Inr [LNumber 7], Some (LProcess \<lparr>pid = 100, exit_status = Some 7\<rparr> []),
        sim_start\<lparr>sim_exit := 3\<rparr>)"
proof -
  let ?p = "\<lparr>pid = 100, exit_status = None\<rparr>"
  let ?w = "sim_start\<lparr>sim_procs := [100], sim_exit := 7\<rparr>"
  let ?w' = "sim_start\<lparr>sim_exit := 7\<rparr>"
  have a: "exit_status ?p = None"
    by simp
  have b: "os_wait sim_core (pid ?p) ?w = (Some 7, ?w')"
    by (simp add: sim_core_def sim_start_def)
  note inst = wait_twice_same_status
    [of ?p sim_core ?w 7 ?w' "[]" sim_core "sim_start\<lparr>sim_exit := 3\<rparr>"
      "LProcess \<lparr>pid = 100, exit_status = Some 7\<rparr> []"]
  from inst a b have first: "wait sim_core [LProcess ?p []] ?w
      = (Inr [LNumber 7], Some (LProcess \<lparr>pid = 100, exit_status = Some 7\<rparr> []), ?w')"
    by simp
  with inst a b show ?thesis
    by simp
qed

section \<open>Where the two bindings part\<close>

subsection \<open>One argument\<close>

lemma binding_spawn_arguments_only:
  "binding_spawn K (LTable arr []) w =
     (if length (binding_cast_args (LTable arr [])) \<le> 1 then (Inr [], w)
      else (case spawn_exec K [] (binding_cast_args (LTable arr [])) None w of
              (None, w') \<Rightarrow> (Inr [], w')
            | (Some p, w') \<Rightarrow> (Inr [LProcess p []], w')))"
  by (simp add: binding_spawn_def Let_def binding_cast_cwd_def binding_cast_env_def
      binding_cast_suspended_def binding_redirect_def binding_cast_stdio_def
      split: prod.splits option.splits)

lemma binding_spawn_single_argument:
  "binding_spawn K (LTable [LString exe] flds) w = (Inr [], w)"
  by (simp add: binding_spawn_def)

lemma spawn_inherit_succeeds:
  assumes "cast_args (LTable arr flds) = Inr args" and "args \<noteq> []"
    and "cast_cwd (LTable arr flds) = Inr cwd"
    and "cast_env (LTable arr flds) [] = Inr sp"
    and "map_of flds ''stdin'' = None" and "map_of flds ''stdout'' = None"
    and "map_of flds ''stderr'' = None"
    and "spawn_exec K (cast_detached (LTable arr flds) (cast_suspended (LTable arr flds) sp)) args cwd w
           = (Some p, w')"
  shows "spawn K (LTable arr flds) w = (Inr [LProcess p []], w')"
  using assms
  by (simp add: spawn_def spawn_setup_def cast_option_def cast_stdio_self_def cast_stdio_def)

text \<open>
  C2 at the input \<open>{"/bin/true"}\<close>, a list of exactly one string naming a program that the
  simulated engine can start, with no stdio slot set. \<open>binding_spawn\<close> (its test is
  \<^verbatim>\<open>args.size() <= 1\<close>) returns nothing and starts nothing; \<open>spawn\<close> of part_000 (its
  test is \<^verbatim>\<open>args.size() == 0\<close>) returns a handle, whose \<open>get_id\<close> is the positive
  identifier 100 of the child just entered in the process table.
\<close>

theorem binding_spawn_refuses_one_argument:
  "binding_spawn sim_core (LTable [LString ''/bin/true''] []) sim_start = (Inr [], sim_start) \<and>
   spawn sim_core (LTable [LString ''/bin/true''] []) sim_start
     = (Inr [LProcess \<lparr>pid = 100, exit_status = None\<rparr> []], sim_start\<lparr>sim_procs := [100]\<rparr>) \<and>
   get_id sim_core [LProcess \<lparr>pid = 100, exit_status = None\<rparr> []] = Inr [LNumber 100]"
  by (simp add: binding_spawn_def spawn_def spawn_setup_def cast_cwd_def cast_env_def
      cast_suspended_def cast_option_def cast_detached_def cast_stdio_self_def cast_stdio_def
      sim_core_def sim_start_def sim_exec_def get_id_def to_def lua_arg_def)

subsection \<open>Probing a stream\<close>

lemma binding_peek_count:
  "binding_peek K [LFile p] w
     = (Inr [LNumber (fst (pipe_peek K (stream_f p) w))], snd (pipe_peek K (stream_f p) w))"
  by (simp add: binding_peek_def lua_arg_def split: prod.splits)

lemma peek_closed:
  "\<not> closef p \<Longrightarrow>
     peek K [LFile p] w = (Inr [LNil, LString (make_error_broken_pipe K ''subprocess::peek'')], w)"
  by (simp add: peek_def lua_arg_def get_file_def)

lemma peek_never_negative:
  "peek K args w = (Inr [LNumber n], w') \<Longrightarrow> 0 \<le> n"
  by (auto simp: peek_def split: sum.splits if_splits prod.splits)

lemma peek_error_value:
  "closef p \<Longrightarrow> pipe_peek K (stream_f p) w = (n, w') \<Longrightarrow> n < 0 \<Longrightarrow>
     peek K [LFile p] w = (Inr [LNil, LString (make_syserror K ''subprocess::peek'' w')], w')"
  by (simp add: peek_def lua_arg_def get_file_def)

text \<open>
  C4 at a stream that is no pipe and has been closed (the file userdata of descriptor 1
  with \<open>closef\<close> cleared; the simulated engine's probe answers \<open>-1\<close> for it).
  \<open>binding_peek\<close> pushes the probe's answer as it is, the count \<open>-1\<close>; \<open>peek\<close> of
  part_000 returns nil and a message.
\<close>

theorem binding_peek_negative_count:
  "binding_peek sim_core [LFile \<lparr>stream_f = 1, closef = False\<rparr>] sim_start
     = (Inr [LNumber (- 1)], sim_start) \<and>
   binding_peek sim_core [LFile \<lparr>stream_f = 1, closef = True\<rparr>] sim_start
     = (Inr [LNumber (- 1)], sim_start) \<and>
   peek sim_core [LFile \<lparr>stream_f = 1, closef = False\<rparr>] sim_start
     = (Inr [LNil, LString ''subprocess::peek: Broken pipe''], sim_start) \<and>
   peek sim_core [LFile \<lparr>stream_f = 1, closef = True\<rparr>] sim_start
     = (Inr [LNil, LString ''subprocess::peek: ''], sim_start)"
  by (simp add: binding_peek_def peek_def lua_arg_def get_file_def sim_core_def sim_start_def)

subsection \<open>A failed creation\<close>

lemma spawn_exec_failure:
  assumes "spawn_setup K cfg w = (Inr (Some (args, cwd, sp, f_stdin, f_stdout, f_stderr, stk)), w')"
    and "spawn_exec K sp args cwd w' = (None, w'')"
  shows "spawn K cfg w = (Inr [LNil, LString (make_syserror K ''subprocess::spawn'' w'')], w'')"
  using assms by (simp add: spawn_def)

text \<open>
  C5 at the input \<open>{"/bin/missing", "-x"}\<close>, which the simulated engine fails to start.
  \<open>binding_spawn\<close> returns nothing (line 265, \<^verbatim>\<open>return 0\<close>); \<open>spawn\<close> of part_000
  returns nil and the message of the system error. Neither leaves a process behind.
\<close>

theorem binding_spawn_failure_returns_nothing:
  "binding_spawn sim_core (LTable [LString ''/bin/missing'', LString ''-x''] []) sim_start
     = (Inr [], sim_start\<lparr>sim_errno := ''No such file or directory''\<rparr>) \<and>
   spawn sim_core (LTable [LString ''/bin/missing'', LString ''-x''] []) sim_start
     = (Inr [LNil, LString ''subprocess::spawn: No such file or directory''],
        sim_start\<lparr>sim_errno := ''No such file or directory''\<rparr>) \<and>
   sim_procs (sim_start\<lparr>sim_errno := ''No such file or directory''\<rparr>) = []"
  by (simp add: binding_spawn_arguments_only spawn_def spawn_setup_def cast_cwd_def cast_env_def
      cast_suspended_def cast_option_def cast_detached_def cast_stdio_self_def cast_stdio_def
      sim_core_def sim_start_def sim_exec_def)

subsection \<open>The environment table\<close>

lemma table_pairs_keys:
  "kv \<in> set (table_pairs arr flds) \<Longrightarrow> (\<exists>i. fst kv = LNumber i) \<or> (\<exists>s. fst kv = LString s)"
  by (auto simp: table_pairs_def set_zip)

lemma lua_next_table_key:
  "lua_next (LTable arr flds) (LTable a f) = Inl Invalid_key_to_next"
proof -
  have "\<forall>kv \<in> set (table_pairs arr flds). fst kv \<noteq> LTable a f"
    using table_pairs_keys by fastforce
  then have none: "dropWhile (\<lambda>kv. fst kv \<noteq> LTable a f) (table_pairs arr flds) = []"
    by simp
  show ?thesis
    by (simp add: none)
qed

lemma binding_cast_env_raises:
  "lua_getfield (LTable arr flds) ''env'' = LTable a f \<Longrightarrow>
     binding_cast_env (LTable arr flds) self = Inl Invalid_key_to_next"
  by (simp add: binding_cast_env_def lua_next_table_key del: lua_next.simps)

lemma binding_spawn_env_raises:
  assumes "lua_getfield (LTable arr flds) ''env'' = LTable a f"
    and "1 < length (binding_cast_args (LTable arr flds))"
  shows "binding_spawn K (LTable arr flds) w = (Inl Invalid_key_to_next, w)"
  using assms(2) by (simp add: binding_spawn_def Let_def binding_cast_env_raises [OF assms(1)])

lemma cast_env_string_keys:
  "lua_getfield cfg ''env'' = LTable [] kvs \<Longrightarrow>
     cast_env cfg self = Inr (self @ [Env (map env_entry kvs)])"
  by (simp add: cast_env_def env_traverse_def)

text \<open>
  C8 at the input \<open>{"/usr/bin/env", "-0", env = {FOO = "bar", BAZ = false}}\<close>.
  \<open>binding_spawn\<close> raises \<^emph>\<open>invalid key to 'next'\<close> from \<open>binding_cast_env\<close> and starts
  nothing; \<open>spawn\<close> of part_000 hands the engine one builder call with the two changes,
  \<open>FOO\<close> set to \<open>bar\<close> and \<open>BAZ\<close> deleted.
\<close>

theorem binding_spawn_env_table_raises:
  "binding_spawn sim_core
      (LTable [LString ''/usr/bin/env'', LString ''-0'']
         [(''env'', LTable [] [(''FOO'', LString ''bar''), (''BAZ'', LBoolean False)])]) sim_start
     = (Inl Invalid_key_to_next, sim_start) \<and>
   spawn_setup sim_core
      (LTable [LString ''/usr/bin/env'', LString ''-0'']
         [(''env'', LTable [] [(''FOO'', LString ''bar''), (''BAZ'', LBoolean False)])]) sim_start
     = (Inr (Some ([''/usr/bin/env'', ''-0''], None,
          [Env [Env_set ''FOO'' ''bar'', Env_del ''BAZ'']], None, None, None, [])), sim_start)"
proof -
  let ?cfg = "LTable [LString ''/usr/bin/env'', LString ''-0'']
         [(''env'', LTable [] [(''FOO'', LString ''bar''), (''BAZ'', LBoolean False)])]"
  have "binding_spawn sim_core ?cfg sim_start = (Inl Invalid_key_to_next, sim_start)"
    by (rule binding_spawn_env_raises) simp_all
  moreover have "spawn_setup sim_core ?cfg sim_start
     = (Inr (Some ([''/usr/bin/env'', ''-0''], None,
          [Env [Env_set ''FOO'' ''bar'', Env_del ''BAZ'']], None, None, None, [])), sim_start)"
    by (simp add: spawn_setup_def cast_cwd_def cast_env_def env_traverse_def env_entry_def
        cast_suspended_def cast_option_def cast_detached_def cast_stdio_self_def cast_stdio_def)
  ultimately show ?thesis
    by simp
qed

end
